theory Spec2Isabelle
  imports Complex_Main
begin

section \<open>Data model\<close>

text \<open>
  Times, positions and gains are Python numbers (ints mixed with the floats that
  \<^verbatim>\<open>time() * 1000\<close> and \<^verbatim>\<open>float(gain)\<close> produce). They are only compared, added and
  subtracted, so they are modelled as reals; rounding and NaN are outside the model.
\<close>

record audio_track =
  track :: string
  track_identifier :: string
  is_seekable :: bool
  author :: string
  duration :: real
  stream :: bool
  title :: string
  uri :: string
  requester :: int
  extra :: "(string \<times> string) list"

text \<open>The node a player talks to. Only its name and its \<^verbatim>\<open>available\<close> flag are read.\<close>

record node =
  node_name :: string
  available :: bool

text \<open>The keyword arguments of every \<^verbatim>\<open>_send\<close> call in the source, one constructor per op.
  An option that the source leaves out of the dictionary is \<open>None\<close>.\<close>

datatype payload =
    Play string string "real option" "real option" "bool option"
  | Stop string
  | Pause string bool
  | Seek string real
  | Volume string int
  | Equalizer string "(int \<times> real) list"
  | VoiceUpdate string "string option" "string option"
  | Destroy string
  | ConfigureResuming string int

datatype event =
    TrackEndEvent "audio_track option" string
  | TrackStuckEvent "audio_track option" int
  | TrackExceptionEvent "audio_track option" string
  | WebSocketClosedEvent int string bool
  | TrackStartEvent audio_track
  | QueueEndEvent
  | NodeChangedEvent node node
  | PlayerUpdateEvent real real

text \<open>What a player does to the outside, in order: \<^verbatim>\<open>node._send(...)\<close> and
  \<^verbatim>\<open>node._dispatch_event(...)\<close>, each on the node named.\<close>

datatype action =
    Send string payload
  | Dispatch string event

datatype error = TypeError | IndexError | ValueError

text \<open>A Python exception leaves every earlier mutation in place, so a raised call
  carries the state it left behind.\<close>

datatype 's result = Returned (state_of: 's) | Raised (raised: error) (state_of: 's)

text \<open>\<^verbatim>\<open>BasePlayer\<close> and \<^verbatim>\<open>BasicPlayer\<close>. The dictionary \<^verbatim>\<open>_voice_state\<close> has at most the
  keys \<^verbatim>\<open>sessionId\<close> and \<^verbatim>\<open>event\<close>. The anchors \<^verbatim>\<open>_last_update\<close> and
  \<^verbatim>\<open>_last_position\<close> are set by \<^verbatim>\<open>play\<close> before \<^verbatim>\<open>current\<close> is. The field
  \<open>trace\<close> is the list of actions performed so far.\<close>

record basic_player =
  guild_id :: string
  node :: node
  vs_session_id :: "string option"
  vs_event :: "string option"
  channel_id :: "int option"
  volume :: int
  paused :: bool
  equalizer :: "real list"
  current :: "audio_track option"
  last_update :: real
  last_position :: real
  position_timestamp :: real
  trace :: "action list"

text \<open>\<^verbatim>\<open>AdvancedPlayer(BasicPlayer)\<close>: the queue is a \<^verbatim>\<open>collections.deque\<close>.\<close>

record advanced_player = basic_player +
  user_data :: "(string \<times> string) list"
  shuffle :: bool
  repeat :: bool
  queue :: "audio_track list"

section \<open>BasicPlayer\<close>

text \<open>\<^verbatim>\<open>BasicPlayer.__init__\<close>. The anchors, which the constructor leaves unset, are 0 as in
  \<^verbatim>\<open>AdvancedPlayer.__init__\<close>.\<close>

definition new_basic_player :: "string \<Rightarrow> node \<Rightarrow> basic_player" where
  "new_basic_player gid n =
     \<lparr>guild_id = gid, node = n, vs_session_id = None, vs_event = None, channel_id = None,
      volume = 100, paused = False, equalizer = replicate 15 0, current = None,
      last_update = 0, last_position = 0, position_timestamp = 0, trace = []\<rparr>"

definition node_send :: "payload \<Rightarrow> 'a basic_player_scheme \<Rightarrow> 'a basic_player_scheme" where
  "node_send m p = p\<lparr>trace := trace p @ [Send (node_name (node p)) m]\<rparr>"

definition node_dispatch_event :: "event \<Rightarrow> 'a basic_player_scheme \<Rightarrow> 'a basic_player_scheme" where
  "node_dispatch_event e p = p\<lparr>trace := trace p @ [Dispatch (node_name (node p)) e]\<rparr>"

definition is_connected :: "'a basic_player_scheme \<Rightarrow> bool" where
  "is_connected p = (channel_id p \<noteq> None)"

definition is_playing :: "'a basic_player_scheme \<Rightarrow> bool" where
  "is_playing p = (is_connected p \<and> current p \<noteq> None)"

text \<open>The property \<^verbatim>\<open>position\<close>; \<open>now\<close> is the value of \<^verbatim>\<open>time() * 1000\<close> it reads.\<close>

definition position :: "real \<Rightarrow> 'a basic_player_scheme \<Rightarrow> real" where
  "position now p =
     (if \<not> is_playing p then 0
      else case current p of
        None \<Rightarrow> 0
      | Some t \<Rightarrow>
          if paused p then min (last_position p) (duration t)
          else min (last_position p + (now - last_update p)) (duration t))"

text \<open>The test of both \<^verbatim>\<open>_handle_event\<close> methods.\<close>

fun is_terminal :: "event \<Rightarrow> bool" where
  "is_terminal (TrackStuckEvent t ms) = True"
| "is_terminal (TrackExceptionEvent t e) = True"
| "is_terminal (TrackEndEvent t reason) = (reason = ''FINISHED'')"
| "is_terminal e = False"

definition handle_event :: "event \<Rightarrow> 'a basic_player_scheme \<Rightarrow> 'a basic_player_scheme" where
  "handle_event e p = (if is_terminal e then p\<lparr>current := None\<rparr> else p)"

definition stop :: "'a basic_player_scheme \<Rightarrow> 'a basic_player_scheme" where
  "stop p = (node_send (Stop (guild_id p)) p)\<lparr>current := None\<rparr>"

definition set_pause :: "bool \<Rightarrow> 'a basic_player_scheme \<Rightarrow> 'a basic_player_scheme" where
  "set_pause pause p = (node_send (Pause (guild_id p) pause) p)\<lparr>paused := pause\<rparr>"

definition set_volume :: "int \<Rightarrow> 'a basic_player_scheme \<Rightarrow> 'a basic_player_scheme" where
  "set_volume vol p = (node_send (Volume (guild_id p) (volume p)) p)\<lparr>volume := vol\<rparr>"

definition seek :: "real \<Rightarrow> 'a basic_player_scheme \<Rightarrow> 'a basic_player_scheme" where
  "seek pos p = node_send (Seek (guild_id p) pos) p"

definition reset_anchors :: "'a basic_player_scheme \<Rightarrow> 'a basic_player_scheme" where
  "reset_anchors p =
     p\<lparr>last_update := 0, last_position := 0, position_timestamp := 0, paused := False\<rparr>"








definition dispatch_voice_update :: "'a basic_player_scheme \<Rightarrow> 'a basic_player_scheme" where
  "dispatch_voice_update p =
     (if vs_session_id p \<noteq> None \<and> vs_event p \<noteq> None
      then node_send (VoiceUpdate (guild_id p) (vs_session_id p) (vs_event p)) p
      else p)"

text \<open>\<^verbatim>\<open>BasicPlayer.change_node\<close>. The clock is read twice: \<open>now_pos\<close> inside
  \<^verbatim>\<open>self.position\<close> and \<open>now_upd\<close> for the new \<^verbatim>\<open>_last_update\<close>.\<close>

definition change_node :: "node \<Rightarrow> real \<Rightarrow> real \<Rightarrow> 'a basic_player_scheme
    \<Rightarrow> 'a basic_player_scheme" where
  "change_node n now_pos now_upd p =
     (let p1 = (if available (node p) then node_send (Destroy (guild_id p)) p else p);
          old_node = node p1;
          p2 = p1\<lparr>node := n\<rparr>;
          p3 = (if vs_session_id p2 \<noteq> None \<or> vs_event p2 \<noteq> None
                then dispatch_voice_update p2 else p2);
          p4 = (case current p3 of
                  None \<Rightarrow> p3
                | Some t \<Rightarrow>
                    (let q1 = node_send (Play (guild_id p3) (track t)
                                (Some (position now_pos p3)) None None) p3;
                         q2 = q1\<lparr>last_update := now_upd\<rparr>
                     in if paused q2 then node_send (Pause (guild_id q2) (paused q2)) q2
                        else q2));
          p5 = (if volume p4 \<noteq> 100 then node_send (Volume (guild_id p4) (volume p4)) p4
                else p4);
          p6 = (if list_ex (\<lambda>g. g \<noteq> 0) (equalizer p5)
                then node_send (Equalizer (guild_id p5)
                       (zip (map int [0..<length (equalizer p5)]) (equalizer p5))) p5
                else p5)
      in node_dispatch_event (NodeChangedEvent old_node n) p6)"

section \<open>AdvancedPlayer\<close>

definition new_advanced_player :: "string \<Rightarrow> node \<Rightarrow> advanced_player" where
  "new_advanced_player gid n =
     \<lparr>guild_id = gid, node = n, vs_session_id = None, vs_event = None, channel_id = None,
      volume = 100, paused = False, equalizer = replicate 15 0, current = None,
      last_update = 0, last_position = 0, position_timestamp = 0, trace = [],
      user_data = [], shuffle = False, repeat = False, queue = []\<rparr>"

text \<open>\<^verbatim>\<open>self.queue\<close> is a \<^verbatim>\<open>collections.deque\<close>, whose \<^verbatim>\<open>pop\<close> takes no argument:
  \<^verbatim>\<open>self.queue.pop(pop_at)\<close> raises TypeError whatever the index, and removes nothing.\<close>

definition deque_pop_at :: "'a list \<Rightarrow> nat \<Rightarrow> error + ('a \<times> 'a list)" where
  "deque_pop_at q i = Inl TypeError"

text \<open>\<^verbatim>\<open>AdvancedPlayer.play\<close> from \<^verbatim>\<open>options = {}\<close> on, once the track is chosen.
  \<^verbatim>\<open>0 > start_time > track.duration\<close> is Python's chained comparison.\<close>

definition play_chosen :: "audio_track \<Rightarrow> real \<Rightarrow> real \<Rightarrow> bool \<Rightarrow> 'a advanced_player_scheme
    \<Rightarrow> 'a advanced_player_scheme result" where
  "play_chosen t start_time end_time no_replace p =
     (if start_time \<noteq> 0 \<and> (0 > start_time \<and> start_time > duration t) then Raised ValueError p
      else if end_time \<noteq> 0 \<and> (0 > end_time \<and> end_time > duration t) then Raised ValueError p
      else
        (let p1 = p\<lparr>current := Some t\<rparr>;
             p2 = node_send (Play (guild_id p1) (track t)
                    (if start_time \<noteq> 0 then Some start_time else None)
                    (if end_time \<noteq> 0 then Some end_time else None)
                    (if no_replace then Some no_replace else None)) p1
         in Returned (node_dispatch_event (TrackStartEvent t) p2)))"

text \<open>\<^verbatim>\<open>AdvancedPlayer.play\<close>; \<open>randrange\<close> is the function of that name from
  \<^verbatim>\<open>random\<close>, called only when \<^verbatim>\<open>shuffle\<close> is set.\<close>

definition play_adv :: "audio_track option \<Rightarrow> real \<Rightarrow> real \<Rightarrow> bool \<Rightarrow> (nat \<Rightarrow> nat)
    \<Rightarrow> 'a advanced_player_scheme \<Rightarrow> 'a advanced_player_scheme result" where
  "play_adv track_arg start_time end_time no_replace randrange p =
     (let p1 = (case current p of
                  Some c \<Rightarrow> if repeat p then p\<lparr>queue := queue p @ [c]\<rparr> else p
                | None \<Rightarrow> p);
          p2 = reset_anchors p1
      in case track_arg of
           Some t \<Rightarrow> play_chosen t start_time end_time no_replace p2
         | None \<Rightarrow>
             if queue p2 = [] then Returned (node_dispatch_event QueueEndEvent (stop p2))
             else
               (let pop_at = (if shuffle p2 then randrange (length (queue p2)) else 0)
                in case deque_pop_at (queue p2) pop_at of
                     Inl e \<Rightarrow> Raised e p2
                   | Inr (t, q') \<Rightarrow>
                       play_chosen t start_time end_time no_replace (p2\<lparr>queue := q'\<rparr>)))"



definition handle_event_adv :: "event \<Rightarrow> (nat \<Rightarrow> nat) \<Rightarrow> 'a advanced_player_scheme
    \<Rightarrow> 'a advanced_player_scheme result" where
  "handle_event_adv e randrange p =
     (if is_terminal e then play_adv None 0 0 False randrange p else Returned p)"

section \<open>WebSocket\<close>

datatype warning = FailedToEstablish | MayNotBeRunning | AuthenticationFailed | UnexpectedCode int

text \<open>What the channel does to the outside, in order: a call of \<^verbatim>\<open>ws_connect\<close> (with or
  without the \<^verbatim>\<open>Resume-Key\<close> header), a logged warning, \<^verbatim>\<open>asyncio.sleep\<close>, the manager's
  \<^verbatim>\<open>_node_connect\<close>, the start of \<^verbatim>\<open>_listen\<close>, and \<^verbatim>\<open>send_json\<close> on the socket.\<close>

datatype ws_effect =
    WsConnect bool
  | Warn warning
  | Sleep nat
  | NodeConnect
  | Listen
  | SendJson payload

text \<open>The field \<open>ws\<close> is the socket handle with its \<^verbatim>\<open>closed\<close> flag, \<open>None\<close> for
  Python's \<^verbatim>\<open>None\<close>.\<close>

record websocket =
  ws :: "bool option"
  message_queue :: "payload list"
  resume_key :: "string option"
  resume_timeout :: "int option"
  resuming_configured :: bool
  effects :: "ws_effect list"

text \<open>\<^verbatim>\<open>WebSocket.__init__\<close>, without the \<^verbatim>\<open>connect\<close> it schedules.\<close>

definition new_websocket :: "string option \<Rightarrow> int option \<Rightarrow> websocket" where
  "new_websocket key timeout =
     \<lparr>ws = None, message_queue = [], resume_key = key, resume_timeout = timeout,
      resuming_configured = False, effects = []\<rparr>"

definition ws_connected :: "websocket \<Rightarrow> bool" where
  "ws_connected c = (case ws c of None \<Rightarrow> False | Some is_closed \<Rightarrow> \<not> is_closed)"

definition perform :: "ws_effect list \<Rightarrow> websocket \<Rightarrow> websocket" where
  "perform es c = c\<lparr>effects := effects c @ es\<rparr>"

definition ws_send :: "payload \<Rightarrow> websocket \<Rightarrow> websocket" where
  "ws_send m c =
     (if ws_connected c then perform [SendJson m] c
      else c\<lparr>message_queue := message_queue c @ [m]\<rparr>)"

text \<open>\<^verbatim>\<open>for message in self._message_queue: await self._send(**message)\<close>. The list
  iterator reads the live list by index, so a message that \<^verbatim>\<open>_send\<close> appends during the
  loop is visited too, and the loop need not end.\<close>

partial_function (option) flush_queue :: "nat \<Rightarrow> websocket \<Rightarrow> websocket option" where
  "flush_queue i c =
     (if i < length (message_queue c)
      then flush_queue (Suc i) (ws_send (message_queue c ! i) c)
      else Some c)"

declare flush_queue.simps [code]

definition truthy_key :: "string option \<Rightarrow> bool" where
  "truthy_key k = (case k of None \<Rightarrow> False | Some s \<Rightarrow> s \<noteq> [])"

text \<open>The \<^verbatim>\<open>else\<close> branch of the \<^verbatim>\<open>try\<close> in \<^verbatim>\<open>connect\<close>, after \<^verbatim>\<open>self._ws\<close> is set.\<close>

definition connect_established :: "websocket \<Rightarrow> websocket option" where
  "connect_established c =
     (let c1 = perform [NodeConnect, Listen] c;
          c2 = (case (resume_key c1, resume_timeout c1) of
                  (Some k, Some t) \<Rightarrow>
                    if \<not> resuming_configured c1 \<and> k \<noteq> [] \<and> (t \<noteq> 0 \<and> t > 0)
                    then (ws_send (ConfigureResuming k t) c1)\<lparr>resuming_configured := True\<rparr>
                    else c1
                | _ \<Rightarrow> c1)
      in if message_queue c2 \<noteq> []
         then map_option (\<lambda>c'. c'\<lparr>message_queue := []\<rparr>) (flush_queue 0 c2)
         else Some c2)"

text \<open>What one call of \<^verbatim>\<open>ws_connect\<close> does: it returns an open socket or raises one of the
  two exceptions that \<^verbatim>\<open>connect\<close> catches (the handshake error with its status).\<close>

datatype attempt_result = Opened | ClientConnectorError | WSServerHandshakeError int

text \<open>How \<^verbatim>\<open>connect\<close> ends: the \<^verbatim>\<open>while\<close> loop is left because the channel is
  connected, the \<^verbatim>\<open>return\<close> in the handler is reached, or the loop is still retrying when
  the given results of \<^verbatim>\<open>ws_connect\<close> are used up.\<close>

datatype connect_end = LoopLeft | ReturnedEarly | Retrying

definition backoff :: "nat \<Rightarrow> nat" where
  "backoff attempt = min (10 * attempt) 60"

text \<open>The \<^verbatim>\<open>while not self.connected\<close> loop of \<^verbatim>\<open>connect\<close>: \<open>hdr\<close> says whether the headers
  hold \<^verbatim>\<open>Resume-Key\<close>, \<open>attempt\<close> is the counter before the iteration, the list holds
  what the successive calls of \<^verbatim>\<open>ws_connect\<close> do.\<close>

fun connect_loop :: "bool \<Rightarrow> nat \<Rightarrow> attempt_result list \<Rightarrow> websocket
    \<Rightarrow> (connect_end \<times> websocket) option" where
  "connect_loop hdr attempt [] c =
     Some (if ws_connected c then LoopLeft else Retrying, c)"
| "connect_loop hdr attempt (r # rs) c =
     (if ws_connected c then Some (LoopLeft, c)
      else
        (let attempt' = attempt + 1;
             c1 = perform [WsConnect hdr] c
         in case r of
              Opened \<Rightarrow>
                (case connect_established (c1\<lparr>ws := Some False\<rparr>) of
                   None \<Rightarrow> None
                 | Some c2 \<Rightarrow> connect_loop hdr attempt' rs c2)
            | ClientConnectorError \<Rightarrow>
                (let c2 = (if attempt' = 1
                           then perform [Warn FailedToEstablish, Warn MayNotBeRunning] c1
                           else c1)
                 in connect_loop hdr attempt' rs (perform [Sleep (backoff attempt')] c2))
            | WSServerHandshakeError status \<Rightarrow>
                (if attempt' = 1
                 then
                   (let c2 = perform [Warn FailedToEstablish] c1
                    in if status = 401
                       then Some (ReturnedEarly, perform [Warn AuthenticationFailed] c2)
                       else
                         (let c3 = (if status \<noteq> 101
                                    then perform [Warn (UnexpectedCode status)] c2
                                    else c2)
                          in connect_loop hdr attempt' rs
                               (perform [Sleep (backoff attempt')] c3)))
                 else connect_loop hdr attempt' rs (perform [Sleep (backoff attempt')] c1))))"

definition connect :: "attempt_result list \<Rightarrow> websocket \<Rightarrow> (connect_end \<times> websocket) option" where
  "connect rs c = connect_loop (resuming_configured c \<and> truthy_key (resume_key c)) 0 rs c"



text \<open>Other tasks. \<^verbatim>\<open>connect\<close> is a coroutine: while it is suspended at an \<^verbatim>\<open>await\<close>, other
  tasks run, and they may call \<^verbatim>\<open>_send\<close>. A schedule gives, for the successive awaits of
  \<^verbatim>\<open>connect\<close> in the order it reaches them, the payloads that the other tasks pass to
  \<^verbatim>\<open>_send\<close> during that suspension; past its end no other task sends anything.\<close>

type_synonym schedule = "payload list list"

definition arriving :: "schedule \<Rightarrow> payload list" where
  "arriving sched = (case sched of [] \<Rightarrow> [] | ms # _ \<Rightarrow> ms)"

definition others_send :: "schedule \<Rightarrow> websocket \<Rightarrow> websocket" where
  "others_send sched c = foldl (\<lambda>c m. ws_send m c) c (arriving sched)"

text \<open>The flush loop with the other tasks: each \<^verbatim>\<open>await self._send(**message)\<close> is a
  suspension, after the message was handed to \<^verbatim>\<open>_send\<close>.\<close>

partial_function (option) flush_queue_with :: "schedule \<Rightarrow> nat \<Rightarrow> websocket
    \<Rightarrow> (websocket \<times> schedule) option" where
  "flush_queue_with sched i c =
     (if i < length (message_queue c)
      then flush_queue_with (tl sched) (Suc i)
             (others_send sched (ws_send (message_queue c ! i) c))
      else Some (c, sched))"

declare flush_queue_with.simps [code]

text \<open>The \<^verbatim>\<open>else\<close> branch with the other tasks: the awaits are the manager's
  \<^verbatim>\<open>_node_connect\<close>, the \<^verbatim>\<open>_send\<close> of \<^verbatim>\<open>configureResuming\<close> when it is made, and the
  \<^verbatim>\<open>_send\<close> of each buffered message. The result holds the rest of the schedule.\<close>

definition connect_established_with :: "schedule \<Rightarrow> websocket
    \<Rightarrow> (websocket \<times> schedule) option" where
  "connect_established_with sched c =
     (let c1 = perform [Listen] (others_send sched (perform [NodeConnect] c));
          s1 = tl sched;
          (c2, s2) = (case (resume_key c1, resume_timeout c1) of
                  (Some k, Some t) \<Rightarrow>
                    if \<not> resuming_configured c1 \<and> k \<noteq> [] \<and> (t \<noteq> 0 \<and> t > 0)
                    then ((others_send s1 (ws_send (ConfigureResuming k t) c1))
                            \<lparr>resuming_configured := True\<rparr>, tl s1)
                    else (c1, s1)
                | _ \<Rightarrow> (c1, s1))
      in if message_queue c2 \<noteq> []
         then map_option (\<lambda>(c', s'). (c'\<lparr>message_queue := []\<rparr>, s')) (flush_queue_with s2 0 c2)
         else Some (c2, s2))"

text \<open>The loop of \<^verbatim>\<open>connect\<close> with the other tasks: \<^verbatim>\<open>await ws_connect\<close> and
  \<^verbatim>\<open>await asyncio.sleep\<close> are suspensions too. \<^verbatim>\<open>self._ws\<close> is assigned when
  \<^verbatim>\<open>ws_connect\<close> has returned, after the suspension.\<close>

fun connect_loop_with :: "schedule \<Rightarrow> bool \<Rightarrow> nat \<Rightarrow> attempt_result list \<Rightarrow> websocket
    \<Rightarrow> (connect_end \<times> websocket) option" where
  "connect_loop_with sched hdr attempt [] c =
     Some (if ws_connected c then LoopLeft else Retrying, c)"
| "connect_loop_with sched hdr attempt (r # rs) c =
     (if ws_connected c then Some (LoopLeft, c)
      else
        (let attempt' = attempt + 1;
             c1 = others_send sched (perform [WsConnect hdr] c);
             s1 = tl sched
         in case r of
              Opened \<Rightarrow>
                (case connect_established_with s1 (c1\<lparr>ws := Some False\<rparr>) of
                   None \<Rightarrow> None
                 | Some (c2, s2) \<Rightarrow> connect_loop_with s2 hdr attempt' rs c2)
            | ClientConnectorError \<Rightarrow>
                (let c2 = (if attempt' = 1
                           then perform [Warn FailedToEstablish, Warn MayNotBeRunning] c1
                           else c1)
                 in connect_loop_with (tl s1) hdr attempt' rs
                      (others_send s1 (perform [Sleep (backoff attempt')] c2)))
            | WSServerHandshakeError status \<Rightarrow>
                (if attempt' = 1
                 then
                   (let c2 = perform [Warn FailedToEstablish] c1
                    in if status = 401
                       then Some (ReturnedEarly, perform [Warn AuthenticationFailed] c2)
                       else
                         (let c3 = (if status \<noteq> 101
                                    then perform [Warn (UnexpectedCode status)] c2
                                    else c2)
                          in connect_loop_with (tl s1) hdr attempt' rs
                               (others_send s1 (perform [Sleep (backoff attempt')] c3))))
                 else connect_loop_with (tl s1) hdr attempt' rs
                        (others_send s1 (perform [Sleep (backoff attempt')] c1)))))"

definition connect_with :: "schedule \<Rightarrow> attempt_result list \<Rightarrow> websocket
    \<Rightarrow> (connect_end \<times> websocket) option" where
  "connect_with sched rs c =
     connect_loop_with sched (resuming_configured c \<and> truthy_key (resume_key c)) 0 rs c"

text \<open>The order on the socket when the buffered messages \<open>ms\<close> are flushed under a
  schedule: each message, then what the other tasks sent while its \<^verbatim>\<open>_send\<close> was
  awaited.\<close>

fun flushed :: "payload list \<Rightarrow> schedule \<Rightarrow> payload list" where
  "flushed [] sched = []"
| "flushed (m # ms) sched = m # arriving sched @ flushed ms (tl sched)"

section \<open>Example values\<close>

definition example_track :: audio_track where
  "example_track =
     \<lparr>track = ''QAAAjQIAJ'', track_identifier = ''dQw4w9WgXcQ'', is_seekable = True,
      author = ''uploader'', duration = 200000, stream = False, title = ''song'',
      uri = ''https://example.org/dQw4w9WgXcQ'', requester = 1, extra = []\<rparr>"

definition example_node :: node where
  "example_node = \<lparr>node_name = ''main'', available = True\<rparr>"


definition other_node :: node where
  "other_node = \<lparr>node_name = ''backup'', available = True\<rparr>"

text \<open>A \<^verbatim>\<open>randrange\<close> that always draws 0.\<close>

definition first_index :: "nat \<Rightarrow> nat" where
  "first_index n = 0"

section \<open>Volume\<close>

text \<open>C4: \<^verbatim>\<open>set_volume(vol)\<close> sends the volume the player had before the call, and then
  stores \<open>vol\<close>. The command carries the new value only when it equals the old one.\<close>

theorem set_volume_sends_previous_volume:
  "set_volume 50 (new_basic_player gid n) =
     (new_basic_player gid n)\<lparr>trace := [Send (node_name n) (Volume gid 100)], volume := 50\<rparr>"
  by (simp add: set_volume_def node_send_def new_basic_player_def)

lemma set_volume_effect:
  "set_volume vol p =
     p\<lparr>trace := trace p @ [Send (node_name (node p)) (Volume (guild_id p) (volume p))],
       volume := vol\<rparr>"
  by (simp add: set_volume_def node_send_def)

section \<open>Position\<close>

text \<open>C6: the position is 0 when the player is not playing, the last known position
  capped by the duration when paused, and the last known position plus the time since the
  last update, capped by the duration, otherwise. It never exceeds the duration of the
  current track (a duration is not negative), and while paused it does not depend on the
  clock.\<close>

theorem position_computed:
  "(\<not> is_playing p \<longrightarrow> position now p = 0) \<and>
   (\<forall>t. is_playing p \<and> current p = Some t \<and> paused p \<longrightarrow>
        position now p = min (last_position p) (duration t)) \<and>
   (\<forall>t. is_playing p \<and> current p = Some t \<and> \<not> paused p \<longrightarrow>
        position now p = min (last_position p + (now - last_update p)) (duration t)) \<and>
   (\<forall>t. current p = Some t \<and> (is_playing p \<or> 0 \<le> duration t) \<longrightarrow>
        position now p \<le> duration t) \<and>
   (paused p \<longrightarrow> position now' p = position now p)"
  by (auto simp: position_def split: option.splits)

theorem position_computed_witness:
  "\<not> is_playing (new_basic_player ''7'' example_node) \<and>
   position 5000 (new_basic_player ''7'' example_node) = 0 \<and>
   is_playing ((new_basic_player ''7'' example_node)
      \<lparr>channel_id := Some 3, current := Some example_track, paused := True,
       last_position := 70, last_update := 1000\<rparr>) \<and>
   position 5000 ((new_basic_player ''7'' example_node)
      \<lparr>channel_id := Some 3, current := Some example_track, paused := True,
       last_position := 70, last_update := 1000\<rparr>) = 70 \<and>
   position 9000 ((new_basic_player ''7'' example_node)
      \<lparr>channel_id := Some 3, current := Some example_track, paused := True,
       last_position := 70, last_update := 1000\<rparr>) = 70 \<and>
   position 5000 ((new_basic_player ''7'' example_node)
      \<lparr>channel_id := Some 3, current := Some example_track,
       last_position := 70, last_update := 1000\<rparr>) = 4070 \<and>
   position 5000 ((new_basic_player ''7'' example_node)
      \<lparr>channel_id := Some 3, current := Some example_track,
       last_position := 199000, last_update := 1000\<rparr>) \<le> duration example_track"
  using
    position_computed [of "new_basic_player ''7'' example_node" 5000 5000]
    position_computed [of "(new_basic_player ''7'' example_node)
      \<lparr>channel_id := Some 3, current := Some example_track, paused := True,
       last_position := 70, last_update := 1000\<rparr>" 5000 9000]
    position_computed [of "(new_basic_player ''7'' example_node)
      \<lparr>channel_id := Some 3, current := Some example_track,
       last_position := 70, last_update := 1000\<rparr>" 5000 5000]
    position_computed [of "(new_basic_player ''7'' example_node)
      \<lparr>channel_id := Some 3, current := Some example_track,
       last_position := 199000, last_update := 1000\<rparr>" 5000 5000]
  by (simp add: new_basic_player_def example_track_def is_playing_def is_connected_def)

section \<open>Track-end events\<close>

text \<open>C10: a track-end event whose reason is not \<^verbatim>\<open>FINISHED\<close> changes nothing: the base
  handler returns the player as it was, and the extended handler returns without calling
  \<^verbatim>\<open>play\<close>, so the queue, the current track and the actions are as before.\<close>

theorem track_end_other_reason_ignored:
  "reason \<noteq> ''FINISHED'' \<Longrightarrow>
     handle_event (TrackEndEvent t reason) p = p \<and>
     handle_event_adv (TrackEndEvent t reason) randrange q = Returned q"
  by (simp add: handle_event_def handle_event_adv_def)

theorem track_end_other_reason_ignored_witness:
  "''REPLACED'' \<noteq> ''FINISHED'' \<and>
   handle_event (TrackEndEvent (Some example_track) ''REPLACED'')
     ((new_basic_player ''7'' example_node)\<lparr>current := Some example_track\<rparr>) =
     (new_basic_player ''7'' example_node)\<lparr>current := Some example_track\<rparr> \<and>
   handle_event_adv (TrackEndEvent (Some example_track) ''REPLACED'') (\<lambda>n. 0)
     ((new_advanced_player ''7'' example_node)
        \<lparr>current := Some example_track, queue := [example_track]\<rparr>) =
     Returned ((new_advanced_player ''7'' example_node)
        \<lparr>current := Some example_track, queue := [example_track]\<rparr>)"
  using track_end_other_reason_ignored [of "''REPLACED''" "Some example_track"
    "(new_basic_player ''7'' example_node)\<lparr>current := Some example_track\<rparr>" "\<lambda>n. 0"
    "(new_advanced_player ''7'' example_node)
        \<lparr>current := Some example_track, queue := [example_track]\<rparr>"]
  by simp

section \<open>Playing a track\<close>

lemma play_chosen_no_range_error:
  "0 \<le> duration t \<Longrightarrow>
     play_chosen t start_time end_time no_replace p =
       Returned (node_dispatch_event (TrackStartEvent t)
         (node_send (Play (guild_id p) (track t)
            (if start_time \<noteq> 0 then Some start_time else None)
            (if end_time \<noteq> 0 then Some end_time else None)
            (if no_replace then Some True else None)) (p\<lparr>current := Some t\<rparr>)))"
  by (simp add: play_chosen_def Let_def)

text \<open>C2: for a track of 200000 ms, \<^verbatim>\<open>play(track, start_time=250000)\<close> on a new extended
  player does not fail: the play command is sent with \<^verbatim>\<open>startTime\<close> 250000 and the track
  becomes the current one. The test \<^verbatim>\<open>0 > start_time > track.duration\<close> asks for a start
  time below 0 and above the duration at once.\<close>

theorem play_start_beyond_duration_accepted:
  "play_adv (Some example_track) 250000 0 False randrange (new_advanced_player gid n) =
     Returned ((new_advanced_player gid n)
       \<lparr>current := Some example_track,
        trace := [Send (node_name n) (Play gid (track example_track) (Some 250000) None None),
                  Dispatch (node_name n) (TrackStartEvent example_track)]\<rparr>)"
  by (simp add: play_adv_def play_chosen_def reset_anchors_def node_send_def
      node_dispatch_event_def new_advanced_player_def example_track_def)

lemma play_within_duration_accepted:
  "play_adv (Some example_track) 1000 2000 False randrange (new_advanced_player gid n) =
     Returned ((new_advanced_player gid n)
       \<lparr>current := Some example_track,
        trace := [Send (node_name n)
                    (Play gid (track example_track) (Some 1000) (Some 2000) None),
                  Dispatch (node_name n) (TrackStartEvent example_track)]\<rparr>)"
  by (simp add: play_adv_def play_chosen_def reset_anchors_def node_send_def
      node_dispatch_event_def new_advanced_player_def example_track_def)

section \<open>Playing from the queue\<close>

lemma play_adv_empty_queue:
  "queue p = [] \<Longrightarrow> \<not> (repeat p \<and> current p \<noteq> None) \<Longrightarrow>
     play_adv None start_time end_time no_replace randrange p =
       Returned ((reset_anchors p)
         \<lparr>current := None,
          trace := trace p @ [Send (node_name (node p)) (Stop (guild_id p)),
                              Dispatch (node_name (node p)) QueueEndEvent]\<rparr>)"
  by (auto simp: play_adv_def stop_def reset_anchors_def node_send_def
      node_dispatch_event_def split: option.splits)

lemma play_adv_queue_raises:
  "queue p \<noteq> [] \<Longrightarrow>
     \<exists>p'. play_adv None start_time end_time no_replace randrange p = Raised TypeError p' \<and>
          current p' = current p \<and> trace p' = trace p \<and>
          (queue p' = queue p \<or> (\<exists>c. queue p' = queue p @ [c]))"
  by (auto simp: play_adv_def deque_pop_at_def reset_anchors_def Let_def split: option.splits)

text \<open>C8: with one track in the queue and shuffle off, \<^verbatim>\<open>play()\<close> on the extended player
  raises TypeError at \<^verbatim>\<open>self.queue.pop(pop_at)\<close>: the track stays in the queue, no track
  becomes current and no command is sent.\<close>

theorem play_next_from_queue_raises:
  "play_adv None 0 0 False randrange ((new_advanced_player gid n)\<lparr>queue := [example_track]\<rparr>) =
     Raised TypeError ((new_advanced_player gid n)\<lparr>queue := [example_track]\<rparr>)"
  by (simp add: play_adv_def deque_pop_at_def reset_anchors_def new_advanced_player_def)

section \<open>The option noReplace\<close>



section \<open>Changing the node\<close>

lemma node_send_fields:
  "trace (node_send m p) = trace p @ [Send (node_name (node p)) m]"
  "node (node_send m p) = node p"
  "guild_id (node_send m p) = guild_id p"
  "vs_session_id (node_send m p) = vs_session_id p"
  "vs_event (node_send m p) = vs_event p"
  "channel_id (node_send m p) = channel_id p"
  "volume (node_send m p) = volume p"
  "paused (node_send m p) = paused p"
  "equalizer (node_send m p) = equalizer p"
  "current (node_send m p) = current p"
  "last_update (node_send m p) = last_update p"
  "last_position (node_send m p) = last_position p"
  by (simp_all add: node_send_def)

lemma node_dispatch_event_fields:
  "trace (node_dispatch_event e p) = trace p @ [Dispatch (node_name (node p)) e]"
  "node (node_dispatch_event e p) = node p"
  "last_update (node_dispatch_event e p) = last_update p"
  by (simp_all add: node_dispatch_event_def)

lemma position_node_send: "position now (node_send m p) = position now p"
  by (simp add: position_def is_playing_def is_connected_def node_send_def split: option.splits)

lemma position_node_update: "position now (p\<lparr>node := n\<rparr>) = position now p"
  by (simp add: position_def is_playing_def is_connected_def split: option.splits)

lemma dispatch_voice_update_fields:
  "trace (dispatch_voice_update p) =
     trace p @ (if vs_session_id p \<noteq> None \<and> vs_event p \<noteq> None
                then [Send (node_name (node p)) (VoiceUpdate (guild_id p) (vs_session_id p) (vs_event p))]
                else [])"
  "node (dispatch_voice_update p) = node p"
  "guild_id (dispatch_voice_update p) = guild_id p"
  "volume (dispatch_voice_update p) = volume p"
  "paused (dispatch_voice_update p) = paused p"
  "equalizer (dispatch_voice_update p) = equalizer p"
  "current (dispatch_voice_update p) = current p"
  "last_update (dispatch_voice_update p) = last_update p"
  "position now (dispatch_voice_update p) = position now p"
  by (simp_all add: dispatch_voice_update_def node_send_fields position_node_send)

lemma change_node_trace:
  "trace (change_node n now_pos now_upd p) =
     trace p
     @ (if available (node p) then [Send (node_name (node p)) (Destroy (guild_id p))] else [])
     @ (if vs_session_id p \<noteq> None \<and> vs_event p \<noteq> None
        then [Send (node_name n) (VoiceUpdate (guild_id p) (vs_session_id p) (vs_event p))]
        else [])
     @ (case current p of
          None \<Rightarrow> []
        | Some t \<Rightarrow>
            Send (node_name n)
              (Play (guild_id p) (track t) (Some (position now_pos p)) None None)
            # (if paused p then [Send (node_name n) (Pause (guild_id p) True)] else []))
     @ (if volume p \<noteq> 100 then [Send (node_name n) (Volume (guild_id p) (volume p))] else [])
     @ (if \<exists>g \<in> set (equalizer p). g \<noteq> 0
        then [Send (node_name n)
                (Equalizer (guild_id p)
                   (zip (map int [0..<length (equalizer p)]) (equalizer p)))]
        else [])
     @ [Dispatch (node_name n) (NodeChangedEvent (node p) n)]"
proof (cases "current p")
  case None
  then show ?thesis
    by (simp add: change_node_def Let_def node_send_fields node_dispatch_event_fields
      dispatch_voice_update_fields list_ex_iff)
next
  case (Some t)
  then show ?thesis
    by (simp add: change_node_def Let_def node_send_fields node_dispatch_event_fields
      dispatch_voice_update_fields list_ex_iff position_node_send position_node_update)
qed


lemma change_node_last_update:
  "last_update (change_node n now_pos now_upd p) =
     (if current p = None then last_update p else now_upd)"
  by (cases "current p")
    (simp_all add: change_node_def Let_def node_send_fields node_dispatch_event_fields
      dispatch_voice_update_fields)

text \<open>C7: the actions of \<^verbatim>\<open>change_node\<close>, in order: the destroy on the old node when it
  is available; the voice update when both parts of the voice state are there; for a
  current track, the play command with \<^verbatim>\<open>startTime\<close> the computed position, and the
  pause command exactly when the player is paused; the volume command exactly when the
  volume is not 100; the whole equalizer exactly when some band is not 0; the node-changed
  event last. Every command after the destroy goes to the new node. With a current track
  the update anchor becomes the time read after the play command.\<close>

theorem change_node_resends:
  "trace (change_node n now_pos now_upd p) =
     trace p
     @ (if available (node p) then [Send (node_name (node p)) (Destroy (guild_id p))] else [])
     @ (if vs_session_id p \<noteq> None \<and> vs_event p \<noteq> None
        then [Send (node_name n) (VoiceUpdate (guild_id p) (vs_session_id p) (vs_event p))]
        else [])
     @ (case current p of
          None \<Rightarrow> []
        | Some t \<Rightarrow>
            Send (node_name n)
              (Play (guild_id p) (track t) (Some (position now_pos p)) None None)
            # (if paused p then [Send (node_name n) (Pause (guild_id p) True)] else []))
     @ (if volume p \<noteq> 100 then [Send (node_name n) (Volume (guild_id p) (volume p))] else [])
     @ (if \<exists>g \<in> set (equalizer p). g \<noteq> 0
        then [Send (node_name n)
                (Equalizer (guild_id p)
                   (zip (map int [0..<length (equalizer p)]) (equalizer p)))]
        else [])
     @ [Dispatch (node_name n) (NodeChangedEvent (node p) n)] \<and>
   last_update (change_node n now_pos now_upd p) =
     (if current p = None then last_update p else now_upd)"
  by (rule conjI [OF change_node_trace change_node_last_update])

theorem change_node_resends_witness:
  "trace (change_node other_node 5000 5001
     ((new_basic_player ''7'' example_node)
        \<lparr>channel_id := Some 3, current := Some example_track, paused := True,
         last_position := 70, last_update := 1000, volume := 80\<rparr>)) =
     [Send ''main'' (Destroy ''7''),
      Send ''backup'' (Play ''7'' (track example_track) (Some 70) None None),
      Send ''backup'' (Pause ''7'' True),
      Send ''backup'' (Volume ''7'' 80),
      Dispatch ''backup'' (NodeChangedEvent example_node other_node)] \<and>
   trace (change_node other_node 5000 5001 (new_basic_player ''7'' example_node)) =
     [Send ''main'' (Destroy ''7''),
      Dispatch ''backup'' (NodeChangedEvent example_node other_node)]"
  using
    change_node_resends [of other_node 5000 5001
      "(new_basic_player ''7'' example_node)
        \<lparr>channel_id := Some 3, current := Some example_track, paused := True,
         last_position := 70, last_update := 1000, volume := 80\<rparr>"]
    change_node_resends [of other_node 5000 5001 "new_basic_player ''7'' example_node"]
  by (simp add: new_basic_player_def example_node_def other_node_def position_def
      is_playing_def is_connected_def example_track_def)

section \<open>Equalizer gains\<close>




















section \<open>The connect loop\<close>






lemma perform_perform: "perform es (perform ds c) = perform (ds @ es) c"
  by (simp add: perform_def)


lemma connect_first_auth_failure_stops:
  "\<not> ws_connected c \<Longrightarrow>
     connect_loop hdr 0 (WSServerHandshakeError 401 # rs) c =
       Some (ReturnedEarly,
         perform [WsConnect hdr, Warn FailedToEstablish, Warn AuthenticationFailed] c)"
  by (simp add: Let_def perform_perform)

lemma connect_late_auth_failure_retried:
  "\<not> ws_connected c \<Longrightarrow>
     connect_loop hdr (Suc n) (WSServerHandshakeError 401 # rs) c =
       connect_loop hdr (Suc (Suc n)) rs (perform [WsConnect hdr, Sleep (backoff (n + 2))] c)"
  by (simp add: Let_def perform_perform)

text \<open>C1: the first call of \<^verbatim>\<open>ws_connect\<close> fails to reach the host, the second is rejected
  with status 401, and \<^verbatim>\<open>connect\<close> sleeps and calls \<^verbatim>\<open>ws_connect\<close> a third time: the test
  for 401 is inside \<^verbatim>\<open>if attempt == 1\<close>, so a rejection at a later attempt is retried like
  any other failure, with no warning.\<close>

theorem connect_retries_after_late_auth_failure:
  "connect [ClientConnectorError, WSServerHandshakeError 401, Opened] (new_websocket None None) =
     Some (LoopLeft,
       \<lparr>ws = Some False, message_queue = [], resume_key = None, resume_timeout = None,
        resuming_configured = False,
        effects = [WsConnect False, Warn FailedToEstablish, Warn MayNotBeRunning, Sleep 10,
                   WsConnect False, Sleep 20,
                   WsConnect False, NodeConnect, Listen]\<rparr>)"
  by (simp add: connect_def new_websocket_def ws_connected_def perform_def truthy_key_def
      connect_established_def backoff_def Let_def)


section \<open>Buffered messages\<close>














end
